theory Spec2Isabelle
  imports Main "HOL-Library.Sublist"
begin

section \<open>Python values used by the socket interface\<close>

text \<open>
  Every exception the two source files raise or let through is an instance of Python's
  \<open>Exception\<close>; the argument of each constructor is the message that \<open>str(e)\<close> returns.
  \<open>TypeError\<close> is what a call with the wrong number of arguments raises, \<open>KeyError\<close> what
  indexing a dictionary with an absent key raises.
\<close>

datatype exn =
    ValueError string
  | TypeError string
  | KeyError string
  | OSError string
  | NotConnectedError string
  | IncompleteReadError string

fun str_exn :: "exn \<Rightarrow> string" where
  "str_exn (ValueError m) = m"
| "str_exn (TypeError m) = m"
| "str_exn (KeyError m) = m"
| "str_exn (OSError m) = m"
| "str_exn (NotConnectedError m) = m"
| "str_exn (IncompleteReadError m) = m"

fun is_NotConnectedError :: "exn \<Rightarrow> bool" where
  "is_NotConnectedError (NotConnectedError m) = True"
| "is_NotConnectedError e = False"

definition dquote :: char where
  "dquote = CHR 0x22"

definition squote :: char where
  "squote = CHR 0x27"

definition newline :: char where
  "newline = CHR 0x0A"

subsection \<open>Rendering and reading integers\<close>

definition digit_char :: "nat \<Rightarrow> char" where
  "digit_char d = ''0123456789'' ! d"

function show_nat :: "nat \<Rightarrow> string" where
  "show_nat n = (if n < 10 then [digit_char n] else show_nat (n div 10) @ [digit_char (n mod 10)])"
  by pat_completeness auto
termination
  by (relation "measure id") auto

declare show_nat.simps [simp del]

definition show_int :: "int \<Rightarrow> string" where
  "show_int i = (if i < 0 then CHR ''-'' # show_nat (nat (- i)) else show_nat (nat i))"

definition is_digit :: "char \<Rightarrow> bool" where
  "is_digit c = (c \<in> set ''0123456789'')"

definition digit_val :: "char \<Rightarrow> nat" where
  "digit_val c = of_char c - 48"

text \<open>
  The characters \<open>int()\<close> strips from both ends of its argument: tab, line feed, vertical
  tab, form feed, carriage return, the separators 0x1C to 0x1F, and the space.
\<close>

definition is_space :: "char \<Rightarrow> bool" where
  "is_space c = (c \<in> set [CHR 0x09, CHR 0x0A, CHR 0x0B, CHR 0x0C, CHR 0x0D,
                             CHR 0x1C, CHR 0x1D, CHR 0x1E, CHR 0x1F, CHR 0x20])"

definition strip :: "string \<Rightarrow> string" where
  "strip s = rev (dropWhile is_space (rev (dropWhile is_space s)))"

text \<open>
  \<open>parse_digits acc cs\<close> reads the rest of a decimal literal after a digit: more digits,
  each optionally preceded by one underscore.
\<close>

fun parse_digits :: "nat \<Rightarrow> string \<Rightarrow> nat option" where
  "parse_digits acc [] = Some acc"
| "parse_digits acc [c] = (if is_digit c then Some (10 * acc + digit_val c) else None)"
| "parse_digits acc (c # d # ds) =
     (if is_digit c then parse_digits (10 * acc + digit_val c) (d # ds)
      else if c = CHR ''_'' \<and> is_digit d then parse_digits (10 * acc + digit_val d) ds
      else None)"

definition parse_decimal :: "string \<Rightarrow> nat option" where
  "parse_decimal s =
     (case s of
        [] \<Rightarrow> None
      | c # cs \<Rightarrow> if is_digit c then parse_digits (digit_val c) cs else None)"

text \<open>
  Python's \<open>int(value)\<close> on ASCII text in base ten: surrounding white space is dropped, one
  sign is allowed, and the rest is a decimal literal. \<open>None\<close> stands for the
  \<open>ValueError\<close> that \<open>int\<close> raises. Digits outside ASCII and the interpreter's limit on
  the length of a literal are not modelled.
\<close>

definition py_int :: "string \<Rightarrow> int option" where
  "py_int s =
     (case strip s of
        [] \<Rightarrow> None
      | c # cs \<Rightarrow>
          if c = CHR ''-'' then map_option (\<lambda>n. - int n) (parse_decimal cs)
          else if c = CHR ''+'' then map_option int (parse_decimal cs)
          else map_option int (parse_decimal (c # cs)))"

subsection \<open>Splitting and joining text\<close>

text \<open>\<open>split c s\<close> is \<open>s.split(c)\<close>: every occurrence of the separator ends a field.\<close>

fun split :: "char \<Rightarrow> string \<Rightarrow> string list" where
  "split c [] = [[]]"
| "split c (x # xs) =
     (if x = c then [] # split c xs
      else (case split c xs of
              [] \<Rightarrow> [[x]]
            | p # ps \<Rightarrow> (x # p) # ps))"

text \<open>\<open>split1 c s\<close> is \<open>s.split(c, 1)\<close>: only the first separator is one.\<close>

fun split1 :: "char \<Rightarrow> string \<Rightarrow> string list" where
  "split1 c [] = [[]]"
| "split1 c (x # xs) =
     (if x = c then [[], xs]
      else (case split1 c xs of
              [] \<Rightarrow> [[x]]
            | p # ps \<Rightarrow> (x # p) # ps))"

text \<open>\<open>join_space xs\<close> is \<open>" ".join(xs)\<close>.\<close>

fun join_space :: "string list \<Rightarrow> string" where
  "join_space [] = []"
| "join_space [x] = x"
| "join_space (x # y # ys) = x @ '' '' @ join_space (y # ys)"

text \<open>\<open>rstrip_newline s\<close> is \<open>s.rstrip("\n")\<close>.\<close>

definition rstrip_newline :: "string \<Rightarrow> string" where
  "rstrip_newline s = rev (dropWhile (\<lambda>c. c = newline) (rev s))"

section \<open>The device state\<close>

text \<open>
  The controller state object is created outside the two source files; the record holds
  what they read and write through it: the emulated controller, the buttons it
  advertises (\<open>button_state.get_available_buttons()\<close>), the buttons currently held, the two
  stick objects and the NFC content last given to \<open>set_nfc\<close>.
\<close>

datatype controller = JOYCON_L | JOYCON_R | PRO_CONTROLLER

fun str_controller :: "controller \<Rightarrow> string" where
  "str_controller JOYCON_L = ''Controller.JOYCON_L''"
| "str_controller JOYCON_R = ''Controller.JOYCON_R''"
| "str_controller PRO_CONTROLLER = ''Controller.PRO_CONTROLLER''"

datatype preset = Center | Up | Down | Left | Right

text \<open>
  Modelled from the spec: the stick class is not among the source files. The spec gives
  a stick a horizontal and a vertical integer component, five absolute presets (each a
  defined pair of components, kept here in \<open>presets\<close>) and a direct numeric set of
  either component. \<open>class_name\<close> is what \<open>stick.__class__.__name__\<close> reads.
\<close>

record stick_state =
  class_name :: string
  h_stick :: int
  v_stick :: int
  presets :: "preset \<Rightarrow> int \<times> int"

text \<open>
  Modelled from the spec: the methods of the stick class (\<open>set_center\<close>, \<open>set_up\<close>,
  \<open>set_down\<close>, \<open>set_left\<close>, \<open>set_right\<close>, \<open>set_h\<close>, \<open>set_v\<close>, \<open>get_h\<close>, \<open>get_v\<close>) are not
  among the source files. A preset sets both components to the pair defined for it; a
  direct set writes the one component it names; the getters read the components.
\<close>

definition set_preset :: "preset \<Rightarrow> stick_state \<Rightarrow> stick_state" where
  "set_preset p stick =
     stick\<lparr>h_stick := fst (presets stick p), v_stick := snd (presets stick p)\<rparr>"

definition set_center :: "stick_state \<Rightarrow> stick_state" where
  "set_center = set_preset Center"

definition set_up :: "stick_state \<Rightarrow> stick_state" where
  "set_up = set_preset Up"

definition set_down :: "stick_state \<Rightarrow> stick_state" where
  "set_down = set_preset Down"

definition set_left :: "stick_state \<Rightarrow> stick_state" where
  "set_left = set_preset Left"

definition set_right :: "stick_state \<Rightarrow> stick_state" where
  "set_right = set_preset Right"

definition set_h :: "int \<Rightarrow> stick_state \<Rightarrow> stick_state" where
  "set_h val stick = stick\<lparr>h_stick := val\<rparr>"

definition set_v :: "int \<Rightarrow> stick_state \<Rightarrow> stick_state" where
  "set_v val stick = stick\<lparr>v_stick := val\<rparr>"

definition get_h :: "stick_state \<Rightarrow> int" where
  "get_h stick = h_stick stick"

definition get_v :: "stick_state \<Rightarrow> int" where
  "get_v stick = v_stick stick"

record controller_state =
  get_controller :: controller
  get_available_buttons :: "string list"
  held_buttons :: "string list"
  l_stick_state :: stick_state
  r_stick_state :: stick_state
  nfc_content :: "string option"

definition set_nfc :: "string option \<Rightarrow> controller_state \<Rightarrow> controller_state" where
  "set_nfc content cs = cs\<lparr>nfc_content := content\<rparr>"

section \<open>Stick commands\<close>

text \<open>The value \<open>_set_stick\<close> returns when no branch has raised.\<close>

definition stick_report :: "stick_state \<Rightarrow> string" where
  "stick_report stick =
     class_name stick @ '' was set to ('' @ show_int (get_h stick) @ '', ''
       @ show_int (get_v stick) @ '').''"

text \<open>
  \<open>ControllerSocketInterface._set_stick\<close>. The stick is mutated in place in the source, so
  the result carries the stick as it is when the call ends, also when it ends by raising.
  \<open>value\<close> is \<open>None\<close> or text.
\<close>

definition set_stick :: "stick_state \<Rightarrow> string \<Rightarrow> string option \<Rightarrow> (exn + string) \<times> stick_state" where
  "set_stick stick direction value =
     (if direction = ''center'' then (Inr (stick_report (set_center stick)), set_center stick)
      else if direction = ''up'' then (Inr (stick_report (set_up stick)), set_up stick)
      else if direction = ''down'' then (Inr (stick_report (set_down stick)), set_down stick)
      else if direction = ''left'' then (Inr (stick_report (set_left stick)), set_left stick)
      else if direction = ''right'' then (Inr (stick_report (set_right stick)), set_right stick)
      else if direction \<in> {''h'', ''horizontal''} then
        (case value of
           None \<Rightarrow> (Inl (ValueError ''Missing value''), stick)
         | Some text \<Rightarrow>
             (case py_int text of
                None \<Rightarrow>
                  (Inl (ValueError (''Unexpected stick value '' @ [dquote] @ text @ [dquote])), stick)
              | Some val \<Rightarrow> (Inr (stick_report (set_h val stick)), set_h val stick)))
      else if direction \<in> {''v'', ''vertical''} then
        (case value of
           None \<Rightarrow> (Inl (ValueError ''Missing value''), stick)
         | Some text \<Rightarrow>
             (case py_int text of
                None \<Rightarrow>
                  (Inl (ValueError (''Unexpected stick value '' @ [dquote] @ text @ [dquote])), stick)
              | Some val \<Rightarrow> (Inr (stick_report (set_v val stick)), set_v val stick)))
      else (Inl (ValueError (''Unexpected argument '' @ [dquote] @ direction @ [dquote])), stick))"

definition invalid_side :: exn where
  "invalid_side =
     ValueError (''Value of side must be '' @ [dquote] @ ''l'' @ [dquote] @ '', '' @ [dquote]
       @ ''left'' @ [dquote] @ '' or '' @ [dquote] @ ''r'' @ [dquote] @ '', '' @ [dquote]
       @ ''right'' @ [dquote])"

text \<open>\<open>ControllerSocketInterface.cmd_stick\<close>, on the controller state the interface holds.\<close>

definition cmd_stick ::
  "controller_state \<Rightarrow> string \<Rightarrow> string \<Rightarrow> string option \<Rightarrow> (exn + string) \<times> controller_state" where
  "cmd_stick cs side direction value =
     (if side \<in> {''l'', ''left''} then
        (case set_stick (l_stick_state cs) direction value of
           (res, stick) \<Rightarrow> (res, cs\<lparr>l_stick_state := stick\<rparr>))
      else if side \<in> {''r'', ''right''} then
        (case set_stick (r_stick_state cs) direction value of
           (res, stick) \<Rightarrow> (res, cs\<lparr>r_stick_state := stick\<rparr>))
      else (Inl invalid_side, cs))"

section \<open>The world a command runs in\<close>

text \<open>
  The delay given to \<open>clear_nfc\<close> is a number of seconds when the source supplies it (0, and
  the default 3); a delay that arrives as a command argument is text.
\<close>

datatype delay = Seconds int | Text string

text \<open>
  What the code does besides returning, in program order: lines printed, lines logged,
  sleeps, writes of the NFC content, file reads, detached tasks started with
  \<open>asyncio.ensure_future\<close>, and calls into the controller state's asynchronous operations.
\<close>

datatype effect =
    Print string
  | Info string
  | Sleep delay
  | SetNfc "string option"
  | ReadFile string
  | Spawn delay
  | CallConnect
  | CallSend
  | CallPress "string list"
  | CallRelease "string list"

text \<open>
  \<open>files\<close> is the file system as \<open>open(path, 'rb')\<close> followed by \<open>read\<close> sees it: the
  content, or the exception raised by either step. \<open>pending\<close> holds the delays of the
  detached \<open>clear_nfc\<close> tasks that were started and have not run yet. One command is
  followed from its start to its end: what other connections and detached tasks do at the
  points where the source awaits is outside the model.
\<close>

record world =
  state :: controller_state
  files :: "string \<Rightarrow> exn + string"
  trace :: "effect list"
  pending :: "delay list"

definition emit :: "effect \<Rightarrow> world \<Rightarrow> world" where
  "emit ev w = w\<lparr>trace := trace w @ [ev]\<rparr>"

text \<open>
  The asynchronous operations of the controller state (\<open>connect\<close>, \<open>send\<close>) and the two
  helpers imported beside it (\<open>button_press\<close>, \<open>button_release\<close>) are not among the source
  files. They are parameters: each maps the controller state to the state it leaves and
  either a normal return or the exception it raises (an operation that never returns is
  not represented).
\<close>

type_synonym operation = "controller_state \<Rightarrow> (exn + unit) \<times> controller_state"

record facade =
  connect :: operation
  send :: operation
  button_press :: "string list \<Rightarrow> operation"
  button_release :: "string list \<Rightarrow> operation"

definition call :: "effect \<Rightarrow> operation \<Rightarrow> world \<Rightarrow> (exn + unit) \<times> world" where
  "call ev op w =
     (case op (state w) of
        (res, cs) \<Rightarrow> (res, w\<lparr>state := cs, trace := trace w @ [ev]\<rparr>))"

type_synonym handler = "string list \<Rightarrow> world \<Rightarrow> (exn + string option) \<times> world"

section \<open>The commands registered by the controller script\<close>

text \<open>\<open>ensure_valid_button\<close>: the loop stops at the first button the controller lacks.\<close>

fun ensure_valid_button :: "controller_state \<Rightarrow> string list \<Rightarrow> exn + unit" where
  "ensure_valid_button cs [] = Inr ()"
| "ensure_valid_button cs (button # buttons) =
     (if button \<notin> set (get_available_buttons cs)
      then Inl (ValueError (''Button '' @ button @ '' does not exist on ''
                              @ str_controller (get_controller cs)))
      else ensure_valid_button cs buttons)"

definition hold :: "facade \<Rightarrow> handler" where
  "hold F args w =
     (if args = [] then
        (Inl (ValueError ([dquote] @ ''hold'' @ [dquote] @ '' command requires a button!'')), w)
      else
        (case ensure_valid_button (state w) args of
           Inl e \<Rightarrow> (Inl e, w)
         | Inr u \<Rightarrow>
             (case call CallConnect (connect F) (emit (Info (''Holding '' @ join_space args)) w) of
                (Inl e, w1) \<Rightarrow> (Inl e, w1)
              | (Inr u1, w1) \<Rightarrow>
                  (case call (CallPress args) (button_press F args) w1 of
                     (Inl e, w2) \<Rightarrow> (Inl e, w2)
                   | (Inr u2, w2) \<Rightarrow> (Inr None, w2)))))"

definition release :: "facade \<Rightarrow> handler" where
  "release F args w =
     (if args = [] then
        (Inl (ValueError ([dquote] @ ''release'' @ [dquote] @ '' command requires a button!'')), w)
      else
        (case ensure_valid_button (state w) args of
           Inl e \<Rightarrow> (Inl e, w)
         | Inr u \<Rightarrow>
             (case call CallConnect (connect F) (emit (Info (''Releasing '' @ join_space args)) w) of
                (Inl e, w1) \<Rightarrow> (Inl e, w1)
              | (Inr u1, w1) \<Rightarrow>
                  (case call (CallRelease args) (button_release F args) w1 of
                     (Inl e, w2) \<Rightarrow> (Inl e, w2)
                   | (Inr u2, w2) \<Rightarrow> (Inr None, w2)))))"

text \<open>
  \<open>clear_nfc\<close>: \<open>asyncio.sleep\<close> compares its argument with 0, which raises \<open>TypeError\<close> on
  text; after a numeric sleep the content is cleared.
\<close>

definition clear_nfc :: "delay \<Rightarrow> world \<Rightarrow> (exn + unit) \<times> world" where
  "clear_nfc sec w =
     (case sec of
        Text t \<Rightarrow>
          (Inl (TypeError (squote # ''<='' @ [squote] @ '' not supported between instances of ''
                  @ [squote] @ ''str'' @ [squote] @ '' and '' @ [squote] @ ''int'' @ [squote])), w)
      | Seconds n \<Rightarrow>
          (Inr (), w\<lparr>state := set_nfc None (state w),
                      trace := trace w @ [Sleep sec, Info ''Clearing NFC content'', SetNfc None]\<rparr>))"

text \<open>
  \<open>nfc\<close>. Leaving the \<open>with\<close> block by an exception of \<open>open\<close> or of the read closes the
  file and passes the exception on, after \<open>clear_nfc(0)\<close> has run.
\<close>

definition nfc :: "string \<Rightarrow> delay \<Rightarrow> world \<Rightarrow> (exn + string option) \<times> world" where
  "nfc file_path sec w =
     (if get_controller (state w) = JOYCON_L then
        (Inl (ValueError ''NFC content cannot be set for JOYCON_L''), w)
      else if file_path = [] then
        (Inl (ValueError ([dquote] @ ''nfc'' @ [dquote]
                @ '' command requires file path to an nfc dump as argument!'')), w)
      else
        (case clear_nfc (Seconds 0) w of
           (Inl e, w1) \<Rightarrow> (Inl e, w1)
         | (Inr u, w1) \<Rightarrow>
             (case files w1 file_path of
                Inl e \<Rightarrow> (Inl e, emit (ReadFile file_path) w1)
              | Inr content \<Rightarrow>
                  (Inr None,
                   w1\<lparr>state := set_nfc (Some content) (state w1),
                      trace := trace w1 @ [ReadFile file_path,
                                           Info (''Setting NFC content: '' @ file_path),
                                           SetNfc (Some content), Spawn sec],
                      pending := pending w1 @ [sec]\<rparr>))))"

text \<open>
  The event loop running the oldest detached task: its body is \<open>clear_nfc\<close>, and an
  exception of a detached task reaches nobody.
\<close>

definition run_pending :: "world \<Rightarrow> world" where
  "run_pending w =
     (case pending w of
        [] \<Rightarrow> w
      | sec # rest \<Rightarrow> snd (clear_nfc sec (w\<lparr>pending := rest\<rparr>)))"

text \<open>\<open>nfc(*args)\<close>: the binding of the argument list to \<open>file_path\<close> and \<open>sec=3\<close>.\<close>

definition nfc_command :: handler where
  "nfc_command args w =
     (case args of
        [] \<Rightarrow> (Inl (TypeError ''nfc() missing 1 required positional argument''), w)
      | [file_path] \<Rightarrow> nfc file_path (Seconds 3) w
      | [file_path, sec] \<Rightarrow> nfc file_path (Text sec) w
      | _ \<Rightarrow> (Inl (TypeError ''nfc() takes from 1 to 2 positional arguments''), w))"

section \<open>The command registry\<close>

type_synonym registry = "string \<rightharpoonup> handler"

text \<open>\<open>name in self.commands\<close>.\<close>

definition has_command :: "registry \<Rightarrow> string \<Rightarrow> bool" where
  "has_command commands name = (case commands name of None \<Rightarrow> False | Some command \<Rightarrow> True)"

text \<open>\<open>self.commands[name]\<close>; the message of a \<open>KeyError\<close> is the key in quotes.\<close>

definition getitem :: "registry \<Rightarrow> string \<Rightarrow> exn + handler" where
  "getitem commands name =
     (case commands name of
        None \<Rightarrow> Inl (KeyError ([squote] @ name @ [squote]))
      | Some command \<Rightarrow> Inr command)"

text \<open>\<open>SocketInterface.add_command\<close>; a raise leaves the table as it was.\<close>

definition add_command :: "registry \<Rightarrow> string \<Rightarrow> handler \<Rightarrow> exn + registry" where
  "add_command commands name command =
     (if has_command commands name
      then Inl (ValueError (''Command '' @ name @ '' already registered.''))
      else Inr (commands(name \<mapsto> command)))"

text \<open>
  \<open>_register_commands_with_controller_state\<close>: three registrations in a row, the first
  raise ending the function with the registrations made so far in place.
\<close>

definition register_commands :: "facade \<Rightarrow> registry \<Rightarrow> (exn + unit) \<times> registry" where
  "register_commands F commands =
     (case add_command commands ''hold'' (hold F) of
        Inl e \<Rightarrow> (Inl e, commands)
      | Inr c1 \<Rightarrow>
          (case add_command c1 ''release'' (release F) of
             Inl e \<Rightarrow> (Inl e, c1)
           | Inr c2 \<Rightarrow>
               (case add_command c2 ''nfc'' nfc_command of
                  Inl e \<Rightarrow> (Inl e, c2)
                | Inr c3 \<Rightarrow> (Inr (), c3))))"

section \<open>The socket interface\<close>

text \<open>
  Unpacking a list into a fixed number of names raises \<open>ValueError\<close> when the lengths
  differ; the messages are CPython's for a list that is too short and for one that is too
  long.
\<close>

definition unpack_error :: "nat \<Rightarrow> nat \<Rightarrow> exn" where
  "unpack_error expected got =
     (if got < expected
      then ValueError (''not enough values to unpack (expected '' @ show_nat expected
                         @ '', got '' @ show_nat got @ '')'')
      else ValueError (''too many values to unpack (expected '' @ show_nat expected @ '')''))"

text \<open>
  The first part of \<open>handle_line\<close>: from the line to \<open>cmd\<close> and \<open>args\<close>, or to the exception
  of an unpacking that fails.
\<close>

definition parse_line :: "string \<Rightarrow> exn + string \<times> string list" where
  "parse_line line =
     (if prefix ''btn:'' line then
        (case split CHR '':'' line of
           [action, button, pressed] \<Rightarrow>
             (if pressed = ''true'' then Inr (''hold'', [button])
              else Inr (''release'', [button]))
         | parts \<Rightarrow> Inl (unpack_error 3 (length parts)))
      else if prefix ''stick:'' line then
        (case split CHR '':'' line of
           [action, stick, direction, pressed] \<Rightarrow>
             (if pressed = ''true'' then Inr (''stick'', [stick, direction])
              else Inr (''stick'', [stick, ''center'']))
         | parts \<Rightarrow> Inl (unpack_error 4 (length parts)))
      else if prefix ''nfc:'' line then
        (case split1 CHR '':'' line of
           [action, file_path] \<Rightarrow> Inr (''nfc'', [file_path])
         | parts \<Rightarrow> Inl (unpack_error 2 (length parts)))
      else Inr ([], []))"

text \<open>\<open>cmd_stick(*args)\<close> on the controller state of the world.\<close>

definition stick_command :: handler where
  "stick_command args w =
     (case args of
        [side, direction] \<Rightarrow>
          (case cmd_stick (state w) side direction None of
             (res, cs) \<Rightarrow> (map_sum id Some res, w\<lparr>state := cs\<rparr>))
      | [side, direction, value] \<Rightarrow>
          (case cmd_stick (state w) side direction (Some value) of
             (res, cs) \<Rightarrow> (map_sum id Some res, w\<lparr>state := cs\<rparr>))
      | [] \<Rightarrow> (Inl (TypeError ''cmd_stick() missing 2 required positional arguments''), w)
      | [side] \<Rightarrow> (Inl (TypeError ''cmd_stick() missing 1 required positional argument''), w)
      | _ \<Rightarrow> (Inl (TypeError ''cmd_stick() takes from 3 to 4 positional arguments''), w))"

text \<open>
  \<open>hasattr(self, f'cmd_{cmd}')\<close> and \<open>getattr\<close>: the only attribute of the interface whose
  name starts with \<open>cmd_\<close> is the method \<open>cmd_stick\<close>.
\<close>

definition builtin :: "string \<Rightarrow> handler option" where
  "builtin cmd = (if ''cmd_'' @ cmd = ''cmd_stick'' then Some stick_command else None)"

text \<open>
  The \<open>try\<close> block around a handler: a result that is not empty is printed, an exception
  is printed and goes no further.
\<close>

definition contain :: "(exn + string option) \<times> world \<Rightarrow> world" where
  "contain r =
     (case r of
        (Inr result, w) \<Rightarrow>
          (case result of
             None \<Rightarrow> w
           | Some text \<Rightarrow> if text = [] then w else emit (Print text) w)
      | (Inl e, w) \<Rightarrow> emit (Print (str_exn e)) w)"

definition not_found :: "string \<Rightarrow> string" where
  "not_found cmd = ''command '' @ cmd @ '' not found, call help for help.''"

text \<open>
  The middle part of \<open>handle_line\<close>: the handler is looked up and run. Both the indexing
  of the registry and the call stand inside the \<open>try\<close> block.
\<close>

definition dispatch :: "registry \<Rightarrow> string \<Rightarrow> string list \<Rightarrow> world \<Rightarrow> world" where
  "dispatch commands cmd args w =
     (case builtin cmd of
        Some method \<Rightarrow> contain (method args w)
      | None \<Rightarrow>
          (if has_command commands cmd then
             contain (case getitem commands cmd of
                        Inl e \<Rightarrow> (Inl e, w)
                      | Inr command \<Rightarrow> command args w)
           else emit (Print (not_found cmd)) w))"

text \<open>
  The last part of \<open>handle_line\<close>: \<open>send\<close> is awaited; \<open>NotConnectedError\<close> is logged and
  raised again, any other exception is not caught.
\<close>

definition flush :: "facade \<Rightarrow> world \<Rightarrow> (exn + unit) \<times> world" where
  "flush F w =
     (case call CallSend (send F) w of
        (Inr u, w1) \<Rightarrow> (Inr (), w1)
      | (Inl e, w1) \<Rightarrow>
          (if is_NotConnectedError e then (Inl e, emit (Info ''Connection was lost.'') w1)
           else (Inl e, w1)))"

definition handle_line :: "facade \<Rightarrow> registry \<Rightarrow> string \<Rightarrow> world \<Rightarrow> (exn + unit) \<times> world" where
  "handle_line F commands line w =
     (if line = [] then (Inr (), w)
      else
        (case parse_line line of
           Inl e \<Rightarrow> (Inl e, w)
         | Inr (cmd, args) \<Rightarrow> flush F (dispatch commands cmd args w)))"

text \<open>
  \<open>handle_client\<close> on the chunks that the successive \<open>reader.readuntil()\<close> calls return, each
  ending in a newline; when the stream is exhausted \<open>readuntil\<close> raises. The loop has no
  exit but an exception, so the result is the exception that ends it. The chunks are
  ASCII, which \<open>decode("utf-8")\<close> leaves as they are.
\<close>

fun handle_client :: "facade \<Rightarrow> registry \<Rightarrow> string list \<Rightarrow> world \<Rightarrow> exn \<times> world" where
  "handle_client F commands [] w = (IncompleteReadError ''0 bytes read on a total of undefined expected bytes'', w)"
| "handle_client F commands (chunk # chunks) w =
     (case handle_line F commands (rstrip_newline chunk) w of
        (Inl e, w1) \<Rightarrow> (e, w1)
      | (Inr u, w1) \<Rightarrow> handle_client F commands chunks w1)"

section \<open>An example configuration\<close>

text \<open>
  A Pro Controller with four buttons, sticks away from their centre and a tag loaded; a
  link that is up or down as a whole; one readable file.
\<close>

definition example_stick :: stick_state where
  "example_stick =
     \<lparr>class_name = ''StickState'', h_stick = 100, v_stick = 200,
      presets = (\<lambda>p. case p of
                   Center \<Rightarrow> (2048, 2048)
                 | Up \<Rightarrow> (2048, 4095)
                 | Down \<Rightarrow> (2048, 0)
                 | Left \<Rightarrow> (0, 2048)
                 | Right \<Rightarrow> (4095, 2048))\<rparr>"

definition example_state :: controller_state where
  "example_state =
     \<lparr>get_controller = PRO_CONTROLLER,
      get_available_buttons = [''a'', ''b'', ''x'', ''y''],
      held_buttons = [],
      l_stick_state = example_stick,
      r_stick_state = example_stick,
      nfc_content = Some ''old tag''\<rparr>"

definition example_files :: "string \<Rightarrow> exn + string" where
  "example_files path =
     (if path = ''amiibo.bin'' then Inr ''tag bytes''
      else Inl (OSError ''[Errno 2] No such file or directory''))"

definition example_world :: world where
  "example_world = \<lparr>state = example_state, files = example_files, trace = [], pending = []\<rparr>"

definition link_operation :: "bool \<Rightarrow> operation" where
  "link_operation up cs =
     (if up then (Inr (), cs) else (Inl (NotConnectedError ''Transport not registered.''), cs))"

definition example_facade :: "bool \<Rightarrow> facade" where
  "example_facade up =
     \<lparr>connect = link_operation up,
      send = link_operation up,
      button_press = (\<lambda>buttons cs. (Inr (), cs\<lparr>held_buttons := held_buttons cs @ buttons\<rparr>)),
      button_release =
        (\<lambda>buttons cs. (Inr (), cs\<lparr>held_buttons := filter (\<lambda>b. b \<notin> set buttons) (held_buttons cs)\<rparr>))\<rparr>"

text \<open>The registry as the controller script leaves it.\<close>

definition example_registry :: "bool \<Rightarrow> registry" where
  "example_registry up = snd (register_commands (example_facade up) Map.empty)"

text \<open>A handler that always raises, registered under a name of its own.\<close>

definition failing_handler :: handler where
  "failing_handler args w = (Inl (OSError ''device busy''), emit (Info ''tried'') w)"

text \<open>The example world on a left Joy-Con.\<close>

definition joycon_l_world :: world where
  "joycon_l_world = example_world\<lparr>state := example_state\<lparr>get_controller := JOYCON_L\<rparr>\<rparr>"

text \<open>The example world with two buttons held.\<close>

definition held_world :: world where
  "held_world = example_world\<lparr>state := example_state\<lparr>held_buttons := [''a'', ''b'']\<rparr>\<rparr>"

section \<open>Empty lines\<close>

text \<open>
  C9. Handling an empty input line is a complete no-op: nothing is parsed, no handler is
  dispatched and no flush is attempted, so the world (device state, trace of effects,
  pending tasks) is returned as it was and the call returns normally; the registry is
  only ever read. A chunk that holds nothing but its newline is such a line, and the
  read loop goes on to the next chunk.
\<close>

theorem handle_line_empty_noop:
  "handle_line F commands [] w = (Inr (), w) \<and>
   handle_client F commands ([newline] # chunks) w = handle_client F commands chunks w"
  by (simp add: handle_line_def rstrip_newline_def)

theorem handle_line_empty_noop_witness:
  "handle_line (example_facade False) (example_registry False) [] example_world
     = (Inr (), example_world) \<and>
   handle_client (example_facade False) (example_registry False) [[newline]] example_world
     = (IncompleteReadError ''0 bytes read on a total of undefined expected bytes'', example_world)"
  using handle_line_empty_noop [of "example_facade False" "example_registry False" example_world "[]"]
  by simp

section \<open>Buttons the controller does not have\<close>

lemma ensure_valid_button_rejects:
  assumes "button \<in> set args" and "button \<notin> set (get_available_buttons cs)"
  shows "\<exists>b. b \<in> set args \<and> b \<notin> set (get_available_buttons cs) \<and>
             ensure_valid_button cs args =
               Inl (ValueError (''Button '' @ b @ '' does not exist on ''
                                  @ str_controller (get_controller cs)))"
  using assms
proof (induction args)
  case Nil
  then show ?case by simp
next
  case (Cons a args)
  show ?case
  proof (cases "a \<in> set (get_available_buttons cs)")
    case True
    with Cons.prems have "button \<in> set args" by auto
    from Cons.IH [OF this Cons.prems(2)] True show ?thesis by auto
  next
    case False
    then show ?thesis by auto
  qed
qed

lemma example_buttons:
  "get_available_buttons (state example_world) = [''a'', ''b'', ''x'', ''y'']"
  by (simp add: example_world_def example_state_def)

text \<open>
  C5. When the argument list of hold or of release contains a button that is not among
  the buttons the controller advertises, the command fails with the ValueError that
  names such a button of the list, and the world is exactly as before: no button was
  pressed or released, nothing was logged and no operation of the controller state was
  called.
\<close>

theorem hold_release_reject_unknown_button:
  assumes "button \<in> set args" and "button \<notin> set (get_available_buttons (state w))"
  shows "\<exists>b. b \<in> set args \<and> b \<notin> set (get_available_buttons (state w)) \<and>
             hold F args w =
               (Inl (ValueError (''Button '' @ b @ '' does not exist on ''
                                   @ str_controller (get_controller (state w)))), w) \<and>
             release F args w =
               (Inl (ValueError (''Button '' @ b @ '' does not exist on ''
                                   @ str_controller (get_controller (state w)))), w)"
proof -
  from assms(1) have ne: "args \<noteq> []" by auto
  from ensure_valid_button_rejects [OF assms] obtain b where
    b: "b \<in> set args" "b \<notin> set (get_available_buttons (state w))"
       "ensure_valid_button (state w) args =
          Inl (ValueError (''Button '' @ b @ '' does not exist on ''
                             @ str_controller (get_controller (state w))))"
    by blast
  from ne b(3) have "hold F args w =
      (Inl (ValueError (''Button '' @ b @ '' does not exist on ''
                          @ str_controller (get_controller (state w)))), w)"
    by (simp add: hold_def)
  moreover from ne b(3) have "release F args w =
      (Inl (ValueError (''Button '' @ b @ '' does not exist on ''
                          @ str_controller (get_controller (state w)))), w)"
    by (simp add: release_def)
  ultimately show ?thesis using b(1,2) by blast
qed

theorem hold_release_reject_unknown_button_witness:
  "''zz'' \<in> set [''a'', ''zz'', ''b''] \<and>
   ''zz'' \<notin> set (get_available_buttons (state example_world)) \<and>
   hold (example_facade True) [''a'', ''zz'', ''b''] example_world =
     (Inl (ValueError ''Button zz does not exist on Controller.PRO_CONTROLLER''), example_world) \<and>
   release (example_facade True) [''a'', ''zz'', ''b''] example_world =
     (Inl (ValueError ''Button zz does not exist on Controller.PRO_CONTROLLER''), example_world)"
proof -
  have h1: "''zz'' \<in> set [''a'', ''zz'', ''b'']" by simp
  have h2: "''zz'' \<notin> set (get_available_buttons (state example_world))"
    by (simp add: example_buttons)
  from hold_release_reject_unknown_button [OF h1 h2, of "example_facade True"]
  obtain b where b: "b \<in> set [''a'', ''zz'', ''b'']"
      "b \<notin> set (get_available_buttons (state example_world))"
      "hold (example_facade True) [''a'', ''zz'', ''b''] example_world =
         (Inl (ValueError (''Button '' @ b @ '' does not exist on ''
               @ str_controller (get_controller (state example_world)))), example_world)"
      "release (example_facade True) [''a'', ''zz'', ''b''] example_world =
         (Inl (ValueError (''Button '' @ b @ '' does not exist on ''
               @ str_controller (get_controller (state example_world)))), example_world)"
    by blast
  from b(1,2) have "b = ''zz''" by (auto simp: example_buttons)
  with b(3,4) h1 h2 show ?thesis
    by (simp add: example_world_def example_state_def)
qed

section \<open>Registering and looking up commands\<close>

lemma has_command_iff: "has_command commands name \<longleftrightarrow> commands name \<noteq> None"
  by (simp add: has_command_def split: option.splits)

lemma getitem_Some: "commands name = Some command \<Longrightarrow> getitem commands name = Inr command"
  by (simp add: getitem_def)

lemma dispatch_builtin:
  "builtin cmd = Some method \<Longrightarrow> dispatch commands cmd args w = contain (method args w)"
  by (simp add: dispatch_def)

lemma dispatch_registered:
  "builtin cmd = None \<Longrightarrow> commands cmd = Some command \<Longrightarrow>
   dispatch commands cmd args w = contain (command args w)"
  by (simp add: dispatch_def has_command_iff getitem_Some)

lemma dispatch_not_found:
  "builtin cmd = None \<Longrightarrow> commands cmd = None \<Longrightarrow>
   dispatch commands cmd args w = emit (Print (not_found cmd)) w"
  by (simp add: dispatch_def has_command_iff)

lemma builtin_stick: "builtin cmd = (if cmd = ''stick'' then Some stick_command else None)"
  by (simp add: builtin_def)



section \<open>Resolution of a command name\<close>

lemma example_registry_entries:
  "example_registry up ''hold'' = Some (hold (example_facade up))"
  "example_registry up ''release'' = Some (release (example_facade up))"
  "example_registry up ''nfc'' = Some nfc_command"
  "name \<noteq> ''hold'' \<Longrightarrow> name \<noteq> ''release'' \<Longrightarrow> name \<noteq> ''nfc'' \<Longrightarrow>
     example_registry up name = None"
  by (simp_all add: example_registry_def register_commands_def add_command_def has_command_def)

lemma stick_up_example:
  "stick_command [''l'', ''up''] example_world =
     (Inr (Some ''StickState was set to (2048, 4095).''),
      example_world\<lparr>state := example_state\<lparr>l_stick_state :=
         example_stick\<lparr>h_stick := 2048, v_stick := 4095\<rparr>\<rparr>\<rparr>)"
proof -
  have "show_int 2048 = ''2048''" "show_int 4095 = ''4095''"
    by (simp_all add: show_int_def show_nat.simps digit_char_def)
  then show ?thesis
    by (simp add: stick_command_def cmd_stick_def set_stick_def set_up_def set_preset_def
        stick_report_def get_h_def get_v_def example_world_def example_state_def example_stick_def)
qed

text \<open>
  C6. Resolution of a command name is a function of the name and the registry's entry
  for it, with a fixed precedence: a built-in method named for the command is run
  whatever the registry holds (also when the registry has an entry of the same name);
  otherwise the registry's handler is run; otherwise the "not found" line is printed. Of
  the dispatcher class itself the only built-in is the stick command.
\<close>

theorem dispatch_resolution_order:
  "(\<forall>method. builtin cmd = Some method \<longrightarrow>
      dispatch commands cmd args w = contain (method args w) \<and>
      dispatch commands cmd args w = dispatch other_commands cmd args w) \<and>
   (\<forall>command. builtin cmd = None \<longrightarrow> commands cmd = Some command \<longrightarrow>
      dispatch commands cmd args w = contain (command args w)) \<and>
   (builtin cmd = None \<longrightarrow> commands cmd = None \<longrightarrow>
      dispatch commands cmd args w = emit (Print (not_found cmd)) w) \<and>
   (commands cmd = other_commands cmd \<longrightarrow>
      dispatch commands cmd args w = dispatch other_commands cmd args w) \<and>
   builtin cmd = (if cmd = ''stick'' then Some stick_command else None)"
proof (intro conjI allI impI)
  assume "commands cmd = other_commands cmd"
  then show "dispatch commands cmd args w = dispatch other_commands cmd args w"
    by (cases "builtin cmd") (simp_all add: dispatch_def has_command_def getitem_def)
qed (simp_all add: dispatch_builtin dispatch_registered dispatch_not_found builtin_stick)

theorem dispatch_resolution_order_witness:
  "builtin ''stick'' = Some stick_command \<and>
   ((example_registry True)(''stick'' \<mapsto> failing_handler)) ''stick'' = Some failing_handler \<and>
   dispatch ((example_registry True)(''stick'' \<mapsto> failing_handler)) ''stick'' [''l'', ''up''] example_world
     = emit (Print ''StickState was set to (2048, 4095).'')
         (example_world\<lparr>state := example_state\<lparr>l_stick_state :=
            example_stick\<lparr>h_stick := 2048, v_stick := 4095\<rparr>\<rparr>\<rparr>) \<and>
   builtin ''turbo'' = None \<and>
   dispatch ((example_registry True)(''turbo'' \<mapsto> failing_handler)) ''turbo'' [] example_world
     = emit (Print ''device busy'') (emit (Info ''tried'') example_world) \<and>
   example_registry True ''turbo'' = None \<and>
   dispatch (example_registry True) ''turbo'' [] example_world
     = emit (Print ''command turbo not found, call help for help.'') example_world \<and>
   example_registry True ''turbo'' = Map.empty ''turbo'' \<and>
   dispatch (example_registry True) ''turbo'' [] example_world
     = dispatch Map.empty ''turbo'' [] example_world"
proof -
  note inst = dispatch_resolution_order [where w = example_world and other_commands = Map.empty]
  have b1: "builtin ''stick'' = Some stick_command" and b2: "builtin ''turbo'' = None"
    by (simp_all add: builtin_def)
  have r: "example_registry True ''turbo'' = None"
    by (simp add: example_registry_entries)
  from inst [of "''stick''" "(example_registry True)(''stick'' \<mapsto> failing_handler)" "[''l'', ''up'']"] b1
  have d1: "dispatch ((example_registry True)(''stick'' \<mapsto> failing_handler)) ''stick'' [''l'', ''up''] example_world
      = contain (stick_command [''l'', ''up''] example_world)"
    by simp
  from inst [of "''turbo''" "(example_registry True)(''turbo'' \<mapsto> failing_handler)" "[]"] b2
  have d2: "dispatch ((example_registry True)(''turbo'' \<mapsto> failing_handler)) ''turbo'' [] example_world
      = contain (failing_handler [] example_world)"
    by simp
  from inst [of "''turbo''" "example_registry True" "[]"] b2 r
  have d3: "dispatch (example_registry True) ''turbo'' [] example_world
      = emit (Print (not_found ''turbo'')) example_world"
    by simp
  from inst [of "''turbo''" "example_registry True" "[]"] r
  have d4: "dispatch (example_registry True) ''turbo'' [] example_world
      = dispatch Map.empty ''turbo'' [] example_world"
    by simp
  have "dispatch ((example_registry True)(''stick'' \<mapsto> failing_handler)) ''stick'' [''l'', ''up''] example_world
     = emit (Print ''StickState was set to (2048, 4095).'')
         (example_world\<lparr>state := example_state\<lparr>l_stick_state :=
            example_stick\<lparr>h_stick := 2048, v_stick := 4095\<rparr>\<rparr>\<rparr>)"
    and "dispatch ((example_registry True)(''turbo'' \<mapsto> failing_handler)) ''turbo'' [] example_world
     = emit (Print ''device busy'') (emit (Info ''tried'') example_world)"
    and "dispatch (example_registry True) ''turbo'' [] example_world
     = emit (Print ''command turbo not found, call help for help.'') example_world"
    using d1 d2 d3
    by (simp_all add: stick_up_example contain_def failing_handler_def not_found_def)
  with b1 b2 r d4 show ?thesis by simp
qed

section \<open>Containment of handler failures and the flush\<close>

lemma handle_line_dispatched:
  "line \<noteq> [] \<Longrightarrow> parse_line line = Inr (cmd, args) \<Longrightarrow>
   handle_line F commands line w = flush F (dispatch commands cmd args w)"
  by (simp add: handle_line_def)

lemma fst_flush: "fst (flush F w) = fst (send F (state w))"
  by (simp add: flush_def call_def split: prod.splits sum.splits)

lemma trace_flush:
  "trace (snd (flush F w)) =
     trace w @ [CallSend] @
       (case fst (send F (state w)) of
          Inl e \<Rightarrow> if is_NotConnectedError e then [Info ''Connection was lost.''] else []
        | Inr u \<Rightarrow> [])"
  by (simp add: flush_def call_def emit_def split: prod.splits sum.splits)








section \<open>Lines that name no command\<close>

lemma split_not_Nil: "split c s \<noteq> []"
  by (induction s) (auto split: list.splits)

lemma split_first_field:
  "split c s = p # q # ps \<Longrightarrow> prefix (p @ [c]) s"
proof (induction s arbitrary: p)
  case Nil
  then show ?case by simp
next
  case (Cons x xs)
  show ?case
  proof (cases "x = c")
    case True
    with Cons.prems show ?thesis by simp
  next
    case False
    with Cons.prems obtain p' where p': "split c xs = p' # q # ps" "p = x # p'"
      by (auto split: list.splits)
    from Cons.IH [OF p'(1)] p'(2) show ?thesis by simp
  qed
qed

lemma parse_line_btn_fields:
  assumes "split CHR '':'' line = [''btn'', button, pressed]"
  shows "parse_line line = Inr (if pressed = ''true'' then ''hold'' else ''release'', [button])"
proof -
  from split_first_field [OF assms] have "prefix ''btn:'' line" by simp
  with assms show ?thesis by (simp add: parse_line_def)
qed

lemma parse_line_stick_fields:
  assumes "split CHR '':'' line = [''stick'', side, direction, pressed]"
  shows "parse_line line
           = Inr (''stick'', [side, if pressed = ''true'' then direction else ''center''])"
proof -
  from split_first_field [OF assms] have p: "prefix ''stick:'' line" by simp
  then have "\<not> prefix ''btn:'' line" by (auto simp: prefix_def)
  with p assms show ?thesis by (simp add: parse_line_def)
qed

lemma parse_line_other:
  "\<not> prefix ''btn:'' line \<Longrightarrow> \<not> prefix ''stick:'' line \<Longrightarrow> \<not> prefix ''nfc:'' line \<Longrightarrow>
   parse_line line = Inr ([], [])"
  by (simp add: parse_line_def)

lemma builtin_empty: "builtin [] = None"
  by (simp add: builtin_def)

text \<open>
  A \<open>btn:\<close> line with fewer than three fields: the unpacking raises, and the exception
  leaves \<open>handle_line\<close> before anything is dispatched or flushed.
\<close>

lemma short_btn_line_raises:
  "handle_line F commands ''btn:a'' w
     = (Inl (ValueError ''not enough values to unpack (expected 3, got 2)''), w)"
  by (simp add: handle_line_def parse_line_def unpack_error_def show_nat.simps digit_char_def)

text \<open>
  C2, as the code has it. A line of three fields that starts with \<open>btn:\<close> and whose third
  field is neither \<open>true\<close> nor \<open>false\<close> is outside the command grammar, yet it is not
  treated as "not found": it is dispatched as a release. With buttons a and b held, the
  line \<open>btn:a:maybe\<close> releases a and prints nothing.
\<close>

theorem unmatched_btn_line_is_release_counterexample:
  "''btn:a:maybe'' \<noteq> [] \<and>
   split CHR '':'' ''btn:a:maybe'' = [''btn'', ''a'', ''maybe''] \<and>
   ''maybe'' \<notin> {''true'', ''false''} \<and>
   held_buttons (state held_world) = [''a'', ''b''] \<and>
   handle_line (example_facade True) (example_registry True) ''btn:a:maybe'' held_world
     = (Inr (),
        held_world\<lparr>state := example_state\<lparr>held_buttons := [''b'']\<rparr>,
                    trace := [Info ''Releasing a'', CallConnect, CallRelease [''a''], CallSend]\<rparr>)"
proof -
  have g: "split CHR '':'' ''btn:a:maybe'' = [''btn'', ''a'', ''maybe'']"
    "''maybe'' \<notin> {''true'', ''false''}" "held_buttons (state held_world) = [''a'', ''b'']"
    by (simp_all add: held_world_def)
  have p: "parse_line ''btn:a:maybe'' = Inr (''release'', [''a''])"
    by (simp add: parse_line_def)
  have r: "release (example_facade True) [''a''] held_world
      = (Inr None, held_world\<lparr>state := example_state\<lparr>held_buttons := [''b'']\<rparr>,
                    trace := [Info ''Releasing a'', CallConnect, CallRelease [''a'']]\<rparr>)"
    by (simp add: release_def held_world_def example_world_def example_state_def call_def emit_def
        example_facade_def link_operation_def)
  have b: "builtin ''release'' = None" by (simp add: builtin_def)
  have d: "dispatch (example_registry True) ''release'' [''a''] held_world
      = held_world\<lparr>state := example_state\<lparr>held_buttons := [''b'']\<rparr>,
                    trace := [Info ''Releasing a'', CallConnect, CallRelease [''a'']]\<rparr>"
    using b by (simp add: dispatch_registered example_registry_entries r contain_def)
  have ne: "''btn:a:maybe'' \<noteq> []" by simp
  from handle_line_dispatched [OF ne p] d
  have "handle_line (example_facade True) (example_registry True) ''btn:a:maybe'' held_world
     = (Inr (),
        held_world\<lparr>state := example_state\<lparr>held_buttons := [''b'']\<rparr>,
                    trace := [Info ''Releasing a'', CallConnect, CallRelease [''a''], CallSend]\<rparr>)"
    by (simp add: flush_def call_def example_facade_def link_operation_def held_world_def
        example_world_def)
  with ne g show ?thesis by blast
qed

text \<open>
  C2, amended. For every non-empty line that starts with none of \<open>btn:\<close>, \<open>stick:\<close>
  and \<open>nfc:\<close>, and with no handler registered under the empty name: the line is parsed
  to the empty command name, the dispatch raises nothing and prints
  "command  not found, call help for help.", and the flush is then attempted on the
  untouched device state; what handling the line returns or raises is what that send
  returns or raises. A \<open>btn:\<close> line of three fields is a hold when its third field is
  \<open>true\<close> and a release for any other third field, and a \<open>stick:\<close> line of four fields is
  a stick command, towards the centre for any fourth field other than \<open>true\<close>.
\<close>

theorem unknown_prefix_is_not_found:
  assumes "line \<noteq> []"
    and "\<not> prefix ''btn:'' line" and "\<not> prefix ''stick:'' line" and "\<not> prefix ''nfc:'' line"
    and "\<not> has_command commands []"
  shows
    "parse_line line = Inr ([], []) \<and>
     dispatch commands [] [] w = emit (Print ''command  not found, call help for help.'') w \<and>
     handle_line F commands line w
       = flush F (emit (Print ''command  not found, call help for help.'') w) \<and>
     fst (handle_line F commands line w) = fst (send F (state w)) \<and>
     take (length (trace w) + 2) (trace (snd (handle_line F commands line w)))
       = trace w @ [Print ''command  not found, call help for help.'', CallSend] \<and>
     (\<forall>other button pressed.
        split CHR '':'' other = [''btn'', button, pressed] \<longrightarrow>
        parse_line other = Inr (if pressed = ''true'' then ''hold'' else ''release'', [button])) \<and>
     (\<forall>other side direction pressed.
        split CHR '':'' other = [''stick'', side, direction, pressed] \<longrightarrow>
        parse_line other
          = Inr (''stick'', [side, if pressed = ''true'' then direction else ''center'']))"
proof -
  note p = parse_line_other [OF assms(2-4)]
  from assms(5) have "commands [] = None" by (simp add: has_command_iff)
  with builtin_empty
  have d: "dispatch commands [] [] w = emit (Print ''command  not found, call help for help.'') w"
    by (simp add: dispatch_not_found not_found_def)
  from handle_line_dispatched [OF assms(1) p] d
  have l: "handle_line F commands line w
       = flush F (emit (Print ''command  not found, call help for help.'') w)"
    by simp
  have o: "fst (handle_line F commands line w) = fst (send F (state w))"
    by (simp add: l fst_flush emit_def)
  have t: "take (length (trace w) + 2) (trace (snd (handle_line F commands line w)))
       = trace w @ [Print ''command  not found, call help for help.'', CallSend]"
    by (simp add: l trace_flush emit_def)
  from p d l o t parse_line_btn_fields parse_line_stick_fields show ?thesis by blast
qed

theorem unknown_prefix_is_not_found_witness:
  "''foo:bar'' \<noteq> [] \<and> \<not> prefix ''btn:'' ''foo:bar'' \<and> \<not> prefix ''stick:'' ''foo:bar'' \<and>
   \<not> prefix ''nfc:'' ''foo:bar'' \<and> \<not> has_command (example_registry True) [] \<and>
   handle_line (example_facade True) (example_registry True) ''foo:bar'' example_world
     = (Inr (), example_world\<lparr>trace := [Print ''command  not found, call help for help.'', CallSend]\<rparr>) \<and>
   split CHR '':'' ''btn:a:maybe'' = [''btn'', ''a'', ''maybe''] \<and>
   parse_line ''btn:a:maybe'' = Inr (''release'', [''a'']) \<and>
   split CHR '':'' ''stick:l:up:no'' = [''stick'', ''l'', ''up'', ''no''] \<and>
   parse_line ''stick:l:up:no'' = Inr (''stick'', [''l'', ''center''])"
proof -
  have h: "''foo:bar'' \<noteq> []" "\<not> prefix ''btn:'' ''foo:bar''" "\<not> prefix ''stick:'' ''foo:bar''"
    "\<not> prefix ''nfc:'' ''foo:bar''"
    by simp_all
  have r: "\<not> has_command (example_registry True) []"
    by (simp add: has_command_iff example_registry_entries)
  have s: "split CHR '':'' ''btn:a:maybe'' = [''btn'', ''a'', ''maybe'']" by simp
  note inst = unknown_prefix_is_not_found
    [OF h r, of example_world "example_facade True"]
  from inst
  have l: "handle_line (example_facade True) (example_registry True) ''foo:bar'' example_world
     = (Inr (), example_world\<lparr>trace := [Print ''command  not found, call help for help.'', CallSend]\<rparr>)"
    by (simp add: flush_def call_def emit_def example_facade_def link_operation_def example_world_def)
  from inst s have p: "parse_line ''btn:a:maybe'' = Inr (''release'', [''a''])"
    by simp
  have s': "split CHR '':'' ''stick:l:up:no'' = [''stick'', ''l'', ''up'', ''no'']" by simp
  from inst s' have p': "parse_line ''stick:l:up:no'' = Inr (''stick'', [''l'', ''center''])"
    by simp
  from h r l s p s' p' show ?thesis by blast
qed

section \<open>Loading a tag\<close>

lemma clear_nfc_seconds:
  "clear_nfc (Seconds n) w =
     (Inr (), w\<lparr>state := set_nfc None (state w),
                 trace := trace w @ [Sleep (Seconds n), Info ''Clearing NFC content'', SetNfc None]\<rparr>)"
  by (simp add: clear_nfc_def)

text \<open>
  C3. The nfc operation takes its steps in this order. First, on a controller that
  cannot carry tag data (the left Joy-Con) it fails with the ValueError "NFC content
  cannot be set for JOYCON_L", whatever the path, the empty path included, and changes
  nothing. Second, on another controller an empty path fails with the ValueError that
  asks for a file path, and changes nothing. Otherwise, when the file can be read: the
  loaded content is cleared at once (a sleep of zero seconds, the log line, the content
  set to none), then the file is read, its content is logged and set as the tag content,
  and last a detached task is started with the given delay; the call returns normally
  with the file's content loaded, and the task, when it runs after a numeric delay,
  sleeps for that delay and clears the content again.
\<close>

theorem nfc_steps_in_order:
  "(get_controller (state w) = JOYCON_L \<longrightarrow>
      nfc file_path sec w = (Inl (ValueError ''NFC content cannot be set for JOYCON_L''), w)) \<and>
   (get_controller (state w) \<noteq> JOYCON_L \<longrightarrow> file_path = [] \<longrightarrow>
      nfc file_path sec w =
        (Inl (ValueError ([dquote] @ ''nfc'' @ [dquote]
                @ '' command requires file path to an nfc dump as argument!'')), w)) \<and>
   (\<forall>content.
      get_controller (state w) \<noteq> JOYCON_L \<longrightarrow> file_path \<noteq> [] \<longrightarrow>
      files w file_path = Inr content \<longrightarrow>
        fst (nfc file_path sec w) = Inr None \<and>
        trace (snd (nfc file_path sec w)) =
          trace w @ [Sleep (Seconds 0), Info ''Clearing NFC content'', SetNfc None,
                     ReadFile file_path, Info (''Setting NFC content: '' @ file_path),
                     SetNfc (Some content), Spawn sec] \<and>
        nfc_content (state (snd (nfc file_path sec w))) = Some content \<and>
        pending (snd (nfc file_path sec w)) = pending w @ [sec] \<and>
        (\<forall>n. sec = Seconds n \<longrightarrow>
           nfc_content (state (run_pending ((snd (nfc file_path sec w))\<lparr>pending := [sec]\<rparr>))) = None \<and>
           trace (run_pending ((snd (nfc file_path sec w))\<lparr>pending := [sec]\<rparr>)) =
             trace (snd (nfc file_path sec w))
               @ [Sleep sec, Info ''Clearing NFC content'', SetNfc None]))"
  by (simp add: nfc_def clear_nfc_seconds set_nfc_def run_pending_def)

theorem nfc_steps_in_order_witness:
  "get_controller (state joycon_l_world) = JOYCON_L \<and>
   nfc [] (Seconds 3) joycon_l_world
     = (Inl (ValueError ''NFC content cannot be set for JOYCON_L''), joycon_l_world) \<and>
   nfc ''amiibo.bin'' (Seconds 3) joycon_l_world
     = (Inl (ValueError ''NFC content cannot be set for JOYCON_L''), joycon_l_world) \<and>
   get_controller (state example_world) \<noteq> JOYCON_L \<and>
   nfc [] (Seconds 3) example_world
     = (Inl (ValueError ([dquote] @ ''nfc'' @ [dquote]
              @ '' command requires file path to an nfc dump as argument!'')), example_world) \<and>
   files example_world ''amiibo.bin'' = Inr ''tag bytes'' \<and>
   fst (nfc ''amiibo.bin'' (Seconds 3) example_world) = Inr None \<and>
   trace (snd (nfc ''amiibo.bin'' (Seconds 3) example_world))
     = [Sleep (Seconds 0), Info ''Clearing NFC content'', SetNfc None, ReadFile ''amiibo.bin'',
        Info ''Setting NFC content: amiibo.bin'', SetNfc (Some ''tag bytes''), Spawn (Seconds 3)] \<and>
   nfc_content (state (snd (nfc ''amiibo.bin'' (Seconds 3) example_world))) = Some ''tag bytes'' \<and>
   pending (snd (nfc ''amiibo.bin'' (Seconds 3) example_world)) = [Seconds 3] \<and>
   nfc_content (state (run_pending
      ((snd (nfc ''amiibo.bin'' (Seconds 3) example_world))\<lparr>pending := [Seconds 3]\<rparr>))) = None"
proof -
  have l: "get_controller (state joycon_l_world) = JOYCON_L"
    by (simp add: joycon_l_world_def)
  have p: "get_controller (state example_world) \<noteq> JOYCON_L"
    by (simp add: example_world_def example_state_def)
  have f: "files example_world ''amiibo.bin'' = Inr ''tag bytes''"
    by (simp add: example_world_def example_files_def)
  have t: "trace example_world = []" "pending example_world = []"
    by (simp_all add: example_world_def)
  from nfc_steps_in_order [of joycon_l_world "[]" "Seconds 3"] l
  have a: "nfc [] (Seconds 3) joycon_l_world
     = (Inl (ValueError ''NFC content cannot be set for JOYCON_L''), joycon_l_world)"
    by simp
  from nfc_steps_in_order [of joycon_l_world "''amiibo.bin''" "Seconds 3"] l
  have b: "nfc ''amiibo.bin'' (Seconds 3) joycon_l_world
     = (Inl (ValueError ''NFC content cannot be set for JOYCON_L''), joycon_l_world)"
    by simp
  from nfc_steps_in_order [of example_world "[]" "Seconds 3"] p
  have c: "nfc [] (Seconds 3) example_world
     = (Inl (ValueError ([dquote] @ ''nfc'' @ [dquote]
              @ '' command requires file path to an nfc dump as argument!'')), example_world)"
    by simp
  have ne: "''amiibo.bin'' \<noteq> []" by simp
  from nfc_steps_in_order [of example_world "''amiibo.bin''" "Seconds 3"] p f ne
  have d: "fst (nfc ''amiibo.bin'' (Seconds 3) example_world) = Inr None \<and>
    trace (snd (nfc ''amiibo.bin'' (Seconds 3) example_world))
      = trace example_world @ [Sleep (Seconds 0), Info ''Clearing NFC content'', SetNfc None,
          ReadFile ''amiibo.bin'', Info (''Setting NFC content: '' @ ''amiibo.bin''),
          SetNfc (Some ''tag bytes''), Spawn (Seconds 3)] \<and>
    nfc_content (state (snd (nfc ''amiibo.bin'' (Seconds 3) example_world))) = Some ''tag bytes'' \<and>
    pending (snd (nfc ''amiibo.bin'' (Seconds 3) example_world)) = pending example_world @ [Seconds 3] \<and>
    nfc_content (state (run_pending
      ((snd (nfc ''amiibo.bin'' (Seconds 3) example_world))\<lparr>pending := [Seconds 3]\<rparr>))) = None"
    by blast
  from l p f a b c d t show ?thesis by simp
qed

text \<open>
  C10. The nfc operation is not atomic on failure. On a controller that can carry tag
  data and with a non-empty path, when opening or reading the file raises, the command
  fails with that exception, no detached task is started, and the tag content is none:
  the immediate clear ran before the file was touched, so the content loaded before the
  call is gone.
\<close>

theorem nfc_failed_read_leaves_tag_cleared:
  assumes "get_controller (state w) \<noteq> JOYCON_L" and "file_path \<noteq> []"
    and "files w file_path = Inl e"
  shows "fst (nfc file_path sec w) = Inl e \<and>
         nfc_content (state (snd (nfc file_path sec w))) = None \<and>
         trace (snd (nfc file_path sec w)) =
           trace w @ [Sleep (Seconds 0), Info ''Clearing NFC content'', SetNfc None,
                      ReadFile file_path] \<and>
         pending (snd (nfc file_path sec w)) = pending w"
  using assms by (simp add: nfc_def clear_nfc_seconds set_nfc_def emit_def)

theorem nfc_failed_read_leaves_tag_cleared_witness:
  "get_controller (state example_world) \<noteq> JOYCON_L \<and> ''missing.bin'' \<noteq> [] \<and>
   files example_world ''missing.bin'' = Inl (OSError ''[Errno 2] No such file or directory'') \<and>
   nfc_content (state example_world) = Some ''old tag'' \<and>
   fst (nfc ''missing.bin'' (Seconds 3) example_world)
     = Inl (OSError ''[Errno 2] No such file or directory'') \<and>
   nfc_content (state (snd (nfc ''missing.bin'' (Seconds 3) example_world))) = None \<and>
   pending (snd (nfc ''missing.bin'' (Seconds 3) example_world)) = []"
proof -
  have p: "get_controller (state example_world) \<noteq> JOYCON_L"
    by (simp add: example_world_def example_state_def)
  have ne: "''missing.bin'' \<noteq> []" by simp
  have f: "files example_world ''missing.bin'' = Inl (OSError ''[Errno 2] No such file or directory'')"
    by (simp add: example_world_def example_files_def)
  have o: "nfc_content (state example_world) = Some ''old tag''" "pending example_world = []"
    by (simp_all add: example_world_def example_state_def)
  from nfc_failed_read_leaves_tag_cleared [OF p ne f, of "Seconds 3"] p ne f o
  show ?thesis by simp
qed

section \<open>Stick commands: validation and effect\<close>

















end
